theory Spec2Isabelle
  imports Complex_Main
begin

section \<open>JavaScript numbers and strings used by the schedule\<close>

text \<open>
  The schedule keeps clock times as strings and computes with minutes since midnight.
  A JavaScript number that the code reads from a string or from a form field (a start
  in minutes, a duration) is modelled as \<open>int option\<close>: \<open>None\<close> is NaN, \<open>Some n\<close> the
  integer \<open>n\<close>. Arithmetic with NaN gives NaN, \<open>Math.max\<close> and \<open>Math.min\<close> of NaN are
  NaN, and every comparison with NaN is false. A string is a list of code units below
  256.
\<close>

type_synonym jsnum = "int option"

definition js_add :: "jsnum \<Rightarrow> jsnum \<Rightarrow> jsnum" where
  "js_add x y = (case x of None \<Rightarrow> None
                 | Some a \<Rightarrow> (case y of None \<Rightarrow> None | Some b \<Rightarrow> Some (a + b)))"

definition js_sub :: "jsnum \<Rightarrow> jsnum \<Rightarrow> jsnum" where
  "js_sub x y = (case x of None \<Rightarrow> None
                 | Some a \<Rightarrow> (case y of None \<Rightarrow> None | Some b \<Rightarrow> Some (a - b)))"

definition js_lt :: "jsnum \<Rightarrow> jsnum \<Rightarrow> bool" where
  "js_lt x y = (case x of None \<Rightarrow> False
                | Some a \<Rightarrow> (case y of None \<Rightarrow> False | Some b \<Rightarrow> a < b))"

definition js_max :: "jsnum \<Rightarrow> jsnum \<Rightarrow> jsnum" where
  "js_max x y = (case x of None \<Rightarrow> None
                 | Some a \<Rightarrow> (case y of None \<Rightarrow> None | Some b \<Rightarrow> Some (max a b)))"

definition js_min :: "jsnum \<Rightarrow> jsnum \<Rightarrow> jsnum" where
  "js_min x y = (case x of None \<Rightarrow> None
                 | Some a \<Rightarrow> (case y of None \<Rightarrow> None | Some b \<Rightarrow> Some (min a b)))"

definition digit_char :: "nat \<Rightarrow> char" where
  "digit_char d = char_of (48 + d)"

definition digit_val :: "char \<Rightarrow> nat option" where
  "digit_val c =
     (let k = (of_char c :: nat) in if 48 \<le> k \<and> k \<le> 57 then Some (k - 48) else None)"

definition is_digit :: "char \<Rightarrow> bool" where
  "is_digit c = (digit_val c \<noteq> None)"

text \<open>White space and line terminators as \<open>parseInt\<close>, \<open>Number\<close> and \<open>trim\<close> skip them:
  below 256 these are tab, line feed, vertical tab, form feed, carriage return, space
  and the no-break space.\<close>

definition is_space :: "char \<Rightarrow> bool" where
  "is_space c =
     (c \<in> set [CHR 0x09, CHR 0x0A, CHR 0x0B, CHR 0x0C, CHR 0x0D, CHR '' '', CHR 0xA0])"

text \<open>\<open>String(n)\<close> for a non-negative integer, and for any integer.\<close>

fun dec :: "nat \<Rightarrow> string" where
  "dec n = (if n < 10 then [digit_char n] else dec (n div 10) @ [digit_char (n mod 10)])"

declare dec.simps [simp del]

definition String_of :: "int \<Rightarrow> string" where
  "String_of i = (if i < 0 then CHR ''-'' # dec (nat (- i)) else dec (nat i))"

text \<open>\<open>s.padStart(2, "0")\<close>.\<close>

definition padStart2 :: "string \<Rightarrow> string" where
  "padStart2 s = replicate (2 - length s) (CHR ''0'') @ s"

text \<open>The value of a run of decimal digits, read left to right.\<close>

fun digits_value :: "nat \<Rightarrow> string \<Rightarrow> nat" where
  "digits_value acc [] = acc"
| "digits_value acc (c # cs) =
     (case digit_val c of None \<Rightarrow> acc | Some d \<Rightarrow> digits_value (10 * acc + d) cs)"

text \<open>\<open>parseInt(s, 10)\<close>: leading white space is skipped, one sign is accepted, then the
  longest run of digits is read and whatever follows is ignored; no digit gives NaN.\<close>

definition parseInt :: "string \<Rightarrow> jsnum" where
  "parseInt s =
     (let t = dropWhile is_space s;
          neg = (t \<noteq> [] \<and> hd t = CHR ''-'');
          u = (if t \<noteq> [] \<and> (hd t = CHR ''-'' \<or> hd t = CHR ''+'') then tl t else t);
          ds = takeWhile is_digit u
      in if ds = [] then None
         else Some (if neg then - int (digits_value 0 ds) else int (digits_value 0 ds)))"

text \<open>\<open>s.split(":")\<close>: the pieces between colons; never the empty list.\<close>

fun split_colon :: "string \<Rightarrow> string list" where
  "split_colon [] = [[]]"
| "split_colon (c # cs) =
     (if c = CHR '':'' then [] # split_colon cs
      else (case split_colon cs of p # ps \<Rightarrow> (c # p) # ps | [] \<Rightarrow> [[c]]))"

text \<open>JavaScript's \<open>a % b\<close> on integers: the remainder has the sign of the dividend.\<close>

definition js_rem :: "int \<Rightarrow> int \<Rightarrow> int" where
  "js_rem a b = (if a < 0 then - ((- a) mod \<bar>b\<bar>) else a mod \<bar>b\<bar>)"

section \<open>The time grid\<close>

text \<open>\<open>toMinutes\<close>: both pieces go through \<open>parseInt\<close>; a missing, NaN or zero minute
  piece counts as 0 (\<open>m || 0\<close>), a NaN hour makes the result NaN.\<close>

definition toMinutes :: "string \<Rightarrow> jsnum" where
  "toMinutes time =
     (case map parseInt (split_colon time) of
        [] \<Rightarrow> None
      | h # rest \<Rightarrow>
          (case h of None \<Rightarrow> None
           | Some hv \<Rightarrow>
               Some (hv * 60 + (case rest of [] \<Rightarrow> 0
                               | m # _ \<Rightarrow> (case m of None \<Rightarrow> 0 | Some mv \<Rightarrow> mv)))))"

text \<open>\<open>toTimeString\<close>: hour is \<open>Math.floor(total / 60)\<close>, minute is \<open>total % 60\<close>, each
  padded to two characters. Nothing is clamped here.\<close>

definition toTimeString :: "int \<Rightarrow> string" where
  "toTimeString tot =
     (let h = tot div 60; m = js_rem tot 60
      in padStart2 (String_of h) @ '':'' @ padStart2 (String_of m))"

text \<open>\<open>toTimeString\<close> of a number that may be NaN: both parts are then the text NaN.\<close>

definition toTimeString_js :: "jsnum \<Rightarrow> string" where
  "toTimeString_js x = (case x of None \<Rightarrow> ''NaN:NaN'' | Some tot \<Rightarrow> toTimeString tot)"

text \<open>\<open>clamp\<close> is \<open>Math.min(Math.max(val, min), max)\<close>, on integers and on numbers that
  may be NaN.\<close>

definition clamp :: "int \<Rightarrow> int \<Rightarrow> int \<Rightarrow> int" where
  "clamp val lo hi = min (max val lo) hi"

definition js_clamp :: "jsnum \<Rightarrow> jsnum \<Rightarrow> jsnum \<Rightarrow> jsnum" where
  "js_clamp val lo hi = js_min (js_max val lo) hi"

text \<open>\<open>roundToStep\<close>: \<open>Math.round(minutes / step) * step\<close>, where \<open>Math.round x\<close> is
  \<open>floor (x + 1/2)\<close>. The code only calls it with the step \<open>MIN_SLOT_MINUTES\<close>.\<close>

definition Math_round :: "rat \<Rightarrow> int" where
  "Math_round x = floor (x + 1 / 2)"

definition roundToStep :: "int \<Rightarrow> int \<Rightarrow> int" where
  "roundToStep minutes step = Math_round (of_int minutes / of_int step) * step"

definition roundToStep_js :: "jsnum \<Rightarrow> int \<Rightarrow> jsnum" where
  "roundToStep_js minutes step =
     (case minutes of None \<Rightarrow> None | Some n \<Rightarrow> Some (roundToStep n step))"

definition MIN_SLOT_MINUTES :: int where
  "MIN_SLOT_MINUTES = 15"

section \<open>Activities and the conflict check\<close>

datatype DayKey = Saturday | Sunday

datatype Mood = Chill | Energetic | Social | Focus

datatype Category = Outdoor | Food | Fitness | Culture | Home | Other

record WeekendActivity =
  ident :: string
  title :: string
  category :: Category
  day :: DayKey
  start :: string
  durationMins :: jsnum
  mood :: "Mood option"
  notes_a :: "string option"

text \<open>The test \<open>cStart < aEnd && aStart < cEnd\<close> that \<open>hasConflict\<close> applies to one
  activity of the day, with \<open>end = toMinutes start + durationMins\<close>.\<close>

definition overlaps :: "WeekendActivity \<Rightarrow> WeekendActivity \<Rightarrow> bool" where
  "overlaps candidate a =
     (let cStart = toMinutes (start candidate);
          cEnd = js_add cStart (durationMins candidate);
          aStart = toMinutes (start a);
          aEnd = js_add aStart (durationMins a)
      in js_lt cStart aEnd \<and> js_lt aStart cEnd)"

text \<open>\<open>hasConflict\<close>: the activities of the candidate's day, without the excluded id,
  are tested one by one. A call without the third argument has \<open>excludeId = None\<close>,
  which no id equals.\<close>

definition hasConflict ::
  "WeekendActivity list \<Rightarrow> WeekendActivity \<Rightarrow> string option \<Rightarrow> bool" where
  "hasConflict activities candidate excludeId =
     (let dayActs = filter (\<lambda>a. day a = day candidate \<and> Some (ident a) \<noteq> excludeId) activities
      in list_ex (overlaps candidate) dayActs)"

section \<open>The placement engine of the schedule component\<close>

text \<open>Each operation of the component replaces the activity list through a function of
  the previous list (the updater given to \<open>setActivities\<close>). The model returns the new
  list together with what happened: committed, refused with one of the error
  notifications, or nothing at all.\<close>

datatype outcome =
  Committed | ConflictRejected | InvalidActivity | ParseFailed | NotFound | Ignored

text \<open>The payload of an external drag after \<open>JSON.parse\<close>: every field may be absent.\<close>

record DragPayload =
  p_title :: "string option"
  p_category :: "Category option"
  p_durationMins :: "int option"
  p_mood :: "Mood option"
  p_notes :: "string option"

text \<open>The string under \<open>application/weekendly-activity\<close>: empty, not parseable, or a
  parsed payload.\<close>

datatype ExternalData = NoExternal | BadJson | Payload DragPayload

text \<open>\<open>s.trim()\<close>.\<close>

definition JS_trim :: "string \<Rightarrow> string" where
  "JS_trim s = rev (dropWhile is_space (rev (dropWhile is_space s)))"

text \<open>The branch of \<open>handleDrop\<close> that moves an existing activity. The duration is the
  one stored with the activity, so it may be NaN.\<close>

definition moveActivity ::
  "WeekendActivity list \<Rightarrow> string \<Rightarrow> DayKey \<Rightarrow> int \<Rightarrow> int \<Rightarrow> int
     \<Rightarrow> WeekendActivity list \<times> outcome" where
  "moveActivity prev internalId d mins startHour endHour =
     (case find (\<lambda>a. ident a = internalId) prev of
        None \<Rightarrow> (prev, NotFound)
      | Some found \<Rightarrow>
          (let duration = durationMins found;
               startStr = toTimeString_js
                            (js_clamp (Some mins) (Some (startHour * 60))
                                      (js_sub (Some (endHour * 60)) duration));
               updated = found\<lparr>day := d, start := startStr\<rparr>
           in if hasConflict prev updated (Some internalId) then (prev, ConflictRejected)
              else (map (\<lambda>a. if ident a = internalId then updated else a) prev, Committed)))"

text \<open>The activity that the external-drop branch builds from the checked fields of a
  payload. The id is made from the clock and a random suffix; the model takes it as
  \<open>newId\<close>. The duration comes out of \<open>JSON.parse\<close>, which never yields NaN.\<close>

definition newActivity ::
  "string \<Rightarrow> Category \<Rightarrow> int \<Rightarrow> Mood option \<Rightarrow> string option \<Rightarrow> string \<Rightarrow> DayKey
     \<Rightarrow> int \<Rightarrow> int \<Rightarrow> int \<Rightarrow> WeekendActivity" where
  "newActivity t c n md nt newId d mins startHour endHour =
     (let duration = max MIN_SLOT_MINUTES (roundToStep n MIN_SLOT_MINUTES);
          startStr = toTimeString (clamp mins (startHour * 60) (endHour * 60 - duration))
      in \<lparr>ident = newId, title = t, category = c, day = d, start = startStr,
          durationMins = Some duration, mood = md,
          notes_a = Some (case nt of None \<Rightarrow> [] | Some x \<Rightarrow> x)\<rparr>)"

text \<open>The branch of \<open>handleDrop\<close> for an external payload: a payload whose title,
  category or duration is missing, empty or zero is refused before any activity is
  built.\<close>

definition insertActivity ::
  "WeekendActivity list \<Rightarrow> DragPayload \<Rightarrow> string \<Rightarrow> DayKey \<Rightarrow> int \<Rightarrow> int \<Rightarrow> int
     \<Rightarrow> WeekendActivity list \<times> outcome" where
  "insertActivity prev payload newId d mins startHour endHour =
     (case p_title payload of
        None \<Rightarrow> (prev, InvalidActivity)
      | Some t \<Rightarrow>
     (case p_category payload of
        None \<Rightarrow> (prev, InvalidActivity)
      | Some c \<Rightarrow>
     (case p_durationMins payload of
        None \<Rightarrow> (prev, InvalidActivity)
      | Some n \<Rightarrow>
          (if t = [] \<or> n = 0 then (prev, InvalidActivity)
           else (let newAct = newActivity t c n (p_mood payload) (p_notes payload)
                                          newId d mins startHour endHour
                 in if hasConflict prev newAct None then (prev, ConflictRejected)
                    else (prev @ [newAct], Committed))))))"

text \<open>\<open>handleDrop\<close>: nothing happens without a drop position; an internal id wins over an
  external payload.\<close>

definition handleDrop ::
  "WeekendActivity list \<Rightarrow> int option \<Rightarrow> string \<Rightarrow> ExternalData \<Rightarrow> string \<Rightarrow> DayKey
     \<Rightarrow> int \<Rightarrow> int \<Rightarrow> WeekendActivity list \<times> outcome" where
  "handleDrop prev minsOpt internalId external newId d startHour endHour =
     (case minsOpt of
        None \<Rightarrow> (prev, Ignored)
      | Some mins \<Rightarrow>
          (if internalId \<noteq> [] then moveActivity prev internalId d mins startHour endHour
           else (case external of
                   NoExternal \<Rightarrow> (prev, Ignored)
                 | BadJson \<Rightarrow> (prev, ParseFailed)
                 | Payload payload \<Rightarrow>
                     insertActivity prev payload newId d mins startHour endHour)))"

text \<open>\<open>normalizeTime\<close>: the pattern \<open>^\d{1,2}:\d{2}$\<close>, then both pieces are read as
  numbers, clamped and padded.\<close>

fun time_format :: "string \<Rightarrow> bool" where
  "time_format [h1, c, m1, m2] =
     (is_digit h1 \<and> c = CHR '':'' \<and> is_digit m1 \<and> is_digit m2)"
| "time_format [h1, h2, c, m1, m2] =
     (is_digit h1 \<and> is_digit h2 \<and> c = CHR '':'' \<and> is_digit m1 \<and> is_digit m2)"
| "time_format _ = False"

text \<open>\<open>Number(s)\<close> on the strings that are white space around an optionally signed run
  of decimal digits; the empty string is 0. Every other string is \<open>None\<close> here: that
  is NaN for most of them, and the model does not cover literals with a fraction, an
  exponent, a radix prefix or \<open>Infinity\<close>.\<close>

definition Number_str :: "string \<Rightarrow> jsnum" where
  "Number_str s =
     (let t = JS_trim s
      in if t = [] then Some 0
         else (let neg = (hd t = CHR ''-'');
                   u = (if hd t = CHR ''-'' \<or> hd t = CHR ''+'' then tl t else t)
               in if u \<noteq> [] \<and> list_all is_digit u
                  then Some (if neg then - int (digits_value 0 u) else int (digits_value 0 u))
                  else None))"

text \<open>A destructured array element (a missing one is \<open>undefined\<close>, which is NaN in
  arithmetic) and \<open>String(x).padStart(2, "0")\<close>.\<close>

definition piece :: "jsnum list \<Rightarrow> nat \<Rightarrow> jsnum" where
  "piece xs k = (if k < length xs then xs ! k else None)"

definition pad_num :: "jsnum \<Rightarrow> string" where
  "pad_num x = (case x of None \<Rightarrow> ''NaN'' | Some v \<Rightarrow> padStart2 (String_of v))"

definition normalizeTime :: "string \<Rightarrow> string" where
  "normalizeTime val =
     (if \<not> time_format val then ''08:00''
      else (let parts = map Number_str (split_colon val);
                h = piece parts 0;
                m = piece parts 1
            in pad_num (js_clamp h (Some 0) (Some 23)) @ '':'' @
               pad_num (js_clamp m (Some 0) (Some 59))))"

text \<open>The activity that \<open>saveEdit\<close> commits for a draft. The draft's duration is what the
  edit dialog read with \<open>parseInt\<close>, so it may be NaN, and then the duration that is
  committed is NaN.\<close>

definition cleaned :: "WeekendActivity \<Rightarrow> WeekendActivity" where
  "cleaned editDraft =
     editDraft\<lparr>title := (if JS_trim (title editDraft) = [] then ''Untitled''
                          else JS_trim (title editDraft)),
                durationMins := js_max (Some MIN_SLOT_MINUTES)
                                  (roundToStep_js (durationMins editDraft) MIN_SLOT_MINUTES),
                start := normalizeTime (start editDraft)\<rparr>"

text \<open>The duration field of the edit dialog: \<open>parseInt(e.target.value || "0", 10)\<close>.\<close>

definition durationField :: "string \<Rightarrow> jsnum" where
  "durationField v = parseInt (if v = [] then ''0'' else v)"

definition saveEdit ::
  "WeekendActivity list \<Rightarrow> WeekendActivity option \<Rightarrow> WeekendActivity list \<times> outcome" where
  "saveEdit prev editDraft =
     (case editDraft of
        None \<Rightarrow> (prev, Ignored)
      | Some draft \<Rightarrow>
          (let c = cleaned draft
           in if hasConflict prev c (Some (ident c)) then (prev, ConflictRejected)
              else (map (\<lambda>a. if ident a = ident c then c else a) prev, Committed)))"

definition removeActivity :: "WeekendActivity list \<Rightarrow> string \<Rightarrow> WeekendActivity list" where
  "removeActivity prev i = filter (\<lambda>a. ident a \<noteq> i) prev"

section \<open>The next free start time\<close>





section \<open>The virtualization window\<close>

text \<open>Pixel quantities are rational numbers; indices, the overscan and the threshold are
  integers.\<close>

record VirtualItem =
  v_index :: int
  v_start :: rat
  v_end :: rat
  v_size :: rat

definition virtualItem :: "rat \<Rightarrow> int \<Rightarrow> VirtualItem" where
  "virtualItem itemHeight i =
     \<lparr>v_index = i, v_start = of_int i * itemHeight,
      v_end = (of_int i + 1) * itemHeight, v_size = itemHeight\<rparr>"

definition startIndex :: "rat \<Rightarrow> rat \<Rightarrow> int \<Rightarrow> int" where
  "startIndex itemHeight scrollOffset overscan =
     max 0 (floor (scrollOffset / itemHeight) - overscan)"

definition endIndex :: "nat \<Rightarrow> rat \<Rightarrow> rat \<Rightarrow> rat \<Rightarrow> int \<Rightarrow> int" where
  "endIndex n itemHeight containerHeight scrollOffset overscan =
     min (int n - 1) (ceiling ((scrollOffset + containerHeight) / itemHeight) + overscan)"

text \<open>\<open>useVirtualization\<close>, the list \<open>virtualItems\<close> for \<open>n = items.length\<close>. With an item
  height of 0 the divisions give an infinity or NaN: the loop then runs over every index
  when the start is \<open>-Infinity\<close> and the end \<open>+Infinity\<close>, and not at all otherwise.\<close>

definition useVirtualization ::
  "nat \<Rightarrow> rat \<Rightarrow> rat \<Rightarrow> rat \<Rightarrow> int \<Rightarrow> int \<Rightarrow> VirtualItem list" where
  "useVirtualization n itemHeight containerHeight scrollOffset overscan threshold =
     (let shouldVirtualize = (int n > threshold)
      in if \<not> shouldVirtualize then map (virtualItem itemHeight) [0..int n - 1]
         else if itemHeight = 0
         then (if scrollOffset < 0 \<and> 0 < scrollOffset + containerHeight
               then map (virtualItem itemHeight) [0..int n - 1] else [])
         else map (virtualItem itemHeight)
                [startIndex itemHeight scrollOffset overscan ..
                 endIndex n itemHeight containerHeight scrollOffset overscan])"

section \<open>The persistence manager\<close>

datatype Theme = Lazy | Adventurous | Family

record PlanMetadata =
  tags :: "string list option"
  meta_notes :: "string option"
  isTemplate :: "bool option"

text \<open>A stored plan; the two dates are kept as milliseconds.\<close>

record WeekendPlan =
  plan_id :: string
  theme :: Theme
  activities :: "WeekendActivity list"
  createdAt :: int
  updatedAt :: int
  version :: int
  metadata :: "PlanMetadata option"

text \<open>\<open>Partial<WeekendPlan>\<close>: a patch names the fields it sets.\<close>

record PlanPatch =
  u_id :: "string option"
  u_theme :: "Theme option"
  u_activities :: "WeekendActivity list option"
  u_createdAt :: "int option"
  u_updatedAt :: "int option"
  u_version :: "int option"
  u_metadata :: "PlanMetadata option"

text \<open>The object spread \<open>{ ...plan, ...updates }\<close>.\<close>

definition spread :: "WeekendPlan \<Rightarrow> PlanPatch \<Rightarrow> WeekendPlan" where
  "spread plan updates =
     \<lparr>plan_id = (case u_id updates of None \<Rightarrow> plan_id plan | Some x \<Rightarrow> x),
      theme = (case u_theme updates of None \<Rightarrow> theme plan | Some x \<Rightarrow> x),
      activities = (case u_activities updates of None \<Rightarrow> activities plan | Some x \<Rightarrow> x),
      createdAt = (case u_createdAt updates of None \<Rightarrow> createdAt plan | Some x \<Rightarrow> x),
      updatedAt = (case u_updatedAt updates of None \<Rightarrow> updatedAt plan | Some x \<Rightarrow> x),
      version = (case u_version updates of None \<Rightarrow> version plan | Some x \<Rightarrow> x),
      metadata = (case u_metadata updates of None \<Rightarrow> metadata plan | Some x \<Rightarrow> Some x)\<rparr>"

datatype persist_error = PlanNotFound

text \<open>The database has the object store \<open>plans\<close>, keyed by the plan id, and the object
  store \<open>activities\<close>, keyed by the activity id, whose records carry the id of their
  plan.\<close>

record Database =
  plansStore :: "string \<rightharpoonup> WeekendPlan"
  activitiesStore :: "string \<rightharpoonup> (WeekendActivity \<times> string)"

text \<open>The manager holds the database when it was opened (\<open>db\<close>), and the flat keys of
  \<open>localStorage\<close>.\<close>

record PersistenceManager =
  db :: "Database option"
  localStorage :: "string \<rightharpoonup> WeekendPlan"

definition planKey :: "string \<Rightarrow> string" where
  "planKey i = ''weekendly.plan.'' @ i"

text \<open>The cursor over the index \<open>planId\<close> deletes every activity record of the plan.\<close>

definition deleteByPlan ::
  "(string \<rightharpoonup> (WeekendActivity \<times> string)) \<Rightarrow> string
     \<Rightarrow> (string \<rightharpoonup> (WeekendActivity \<times> string))" where
  "deleteByPlan store i =
     (\<lambda>k. case store k of None \<Rightarrow> None
          | Some r \<Rightarrow> (if snd r = i then None else Some r))"

text \<open>\<open>activitiesStore.add\<close> for each activity of the patch: an add under a key that is
  already in the store fails, which is \<open>None\<close> here.\<close>

fun addAll ::
  "(string \<rightharpoonup> (WeekendActivity \<times> string)) \<Rightarrow> WeekendActivity list \<Rightarrow> string
     \<Rightarrow> (string \<rightharpoonup> (WeekendActivity \<times> string)) option" where
  "addAll store [] i = Some store"
| "addAll store (a # as) i =
     (case store (ident a) of
        Some r \<Rightarrow> None
      | None \<Rightarrow> addAll (store(ident a \<mapsto> (a, i))) as i)"

text \<open>\<open>updatePlanInIndexedDB\<close>, one transaction on both stores: the plan is put under
  its own \<open>id\<close> (the key path) with the version written after the patch; when the patch
  has activities, the plan's activity records are deleted and the new ones added. The
  promise is resolved as soon as the adds are requested; an add that fails afterwards
  has no error handler, so it aborts the transaction and the database keeps its
  previous content.\<close>

definition updatePlanInIndexedDB ::
  "Database \<Rightarrow> string \<Rightarrow> PlanPatch \<Rightarrow> int \<Rightarrow> persist_error + Database" where
  "updatePlanInIndexedDB d i updates now =
     (case plansStore d i of
        None \<Rightarrow> Inl PlanNotFound
      | Some existingPlan \<Rightarrow>
          (let updatedPlan = (spread existingPlan updates)
                               \<lparr>updatedAt := now, version := version existingPlan + 1\<rparr>;
               plans = (plansStore d)(plan_id updatedPlan \<mapsto> updatedPlan)
           in case u_activities updates of
                None \<Rightarrow> Inr (d\<lparr>plansStore := plans\<rparr>)
              | Some acts \<Rightarrow>
                  (case addAll (deleteByPlan (activitiesStore d) i) acts i of
                     None \<Rightarrow> Inr d
                   | Some store \<Rightarrow> Inr \<lparr>plansStore = plans, activitiesStore = store\<rparr>)))"

text \<open>\<open>updatePlanInLocalStorage\<close>: only \<open>updatedAt\<close> is written after the patch.\<close>

definition updatePlanInLocalStorage ::
  "(string \<rightharpoonup> WeekendPlan) \<Rightarrow> string \<Rightarrow> PlanPatch \<Rightarrow> int
     \<Rightarrow> persist_error + (string \<rightharpoonup> WeekendPlan)" where
  "updatePlanInLocalStorage storage i updates now =
     (case storage (planKey i) of
        None \<Rightarrow> Inl PlanNotFound
      | Some plan \<Rightarrow>
          (let updatedPlan = (spread plan updates)\<lparr>updatedAt := now\<rparr>
           in Inr (storage(planKey i \<mapsto> updatedPlan))))"

definition updatePlan ::
  "PersistenceManager \<Rightarrow> string \<Rightarrow> PlanPatch \<Rightarrow> int \<Rightarrow> persist_error + PersistenceManager" where
  "updatePlan pm i updates now =
     (case db pm of
        Some d \<Rightarrow>
          (case updatePlanInIndexedDB d i updates now of
             Inl e \<Rightarrow> Inl e
           | Inr st \<Rightarrow> Inr (pm\<lparr>db := Some st\<rparr>))
      | None \<Rightarrow>
          (case updatePlanInLocalStorage (localStorage pm) i updates now of
             Inl e \<Rightarrow> Inl e
           | Inr st \<Rightarrow> Inr (pm\<lparr>localStorage := st\<rparr>)))"

definition getPlan :: "PersistenceManager \<Rightarrow> string \<Rightarrow> WeekendPlan option" where
  "getPlan pm i =
     (case db pm of
        Some d \<Rightarrow> plansStore d i
      | None \<Rightarrow> localStorage pm (planKey i))"

section \<open>Sample data\<close>

definition brunch :: WeekendActivity where
  "brunch = \<lparr>ident = ''a1'', title = ''Brunch'', category = Food, day = Saturday,
             start = ''11:00'', durationMins = Some 60, mood = None, notes_a = None\<rparr>"

definition lunch :: WeekendActivity where
  "lunch = \<lparr>ident = ''a2'', title = ''Lunch'', category = Food, day = Saturday,
            start = ''12:00'', durationMins = Some 60, mood = None, notes_a = None\<rparr>"

definition walk :: WeekendActivity where
  "walk = \<lparr>ident = ''a3'', title = ''Walk'', category = Outdoor, day = Saturday,
           start = ''09:30'', durationMins = Some 60, mood = None, notes_a = None\<rparr>"

definition hike :: WeekendActivity where
  "hike = \<lparr>ident = ''a4'', title = ''Hike'', category = Outdoor, day = Saturday,
           start = ''10:00'', durationMins = Some 90, mood = None, notes_a = None\<rparr>"

definition hikePayload :: DragPayload where
  "hikePayload = \<lparr>p_title = Some ''Hike'', p_category = Some Outdoor,
                   p_durationMins = Some 90, p_mood = None, p_notes = None\<rparr>"

definition lunchPayload :: DragPayload where
  "lunchPayload = \<lparr>p_title = Some ''Lunch'', p_category = Some Food,
                    p_durationMins = Some 60, p_mood = None, p_notes = None\<rparr>"


definition untitledPayload :: DragPayload where
  "untitledPayload = \<lparr>p_title = Some [], p_category = Some Food,
                       p_durationMins = Some 60, p_mood = None, p_notes = None\<rparr>"

definition blankWalk :: WeekendActivity where
  "blankWalk = walk\<lparr>title := ''  ''\<rparr>"

definition nbspWalk :: WeekendActivity where
  "nbspWalk = walk\<lparr>title := [CHR 0xA0, CHR '' '']\<rparr>"

definition nanDraft :: WeekendActivity where
  "nanDraft = brunch\<lparr>durationMins := durationField ''.5''\<rparr>"


definition samplePlan :: WeekendPlan where
  "samplePlan = \<lparr>plan_id = ''p1'', theme = Lazy, activities = [brunch], createdAt = 1000,
                  updatedAt = 1000, version = 1, metadata = None\<rparr>"

definition activitiesPatch :: PlanPatch where
  "activitiesPatch = \<lparr>u_id = None, u_theme = None, u_activities = Some [brunch, lunch],
                       u_createdAt = None, u_updatedAt = None, u_version = None,
                       u_metadata = None\<rparr>"

definition staleVersionPatch :: PlanPatch where
  "staleVersionPatch = activitiesPatch\<lparr>u_version := Some 0\<rparr>"

definition flatManager :: PersistenceManager where
  "flatManager = \<lparr>db = None, localStorage = [planKey ''p1'' \<mapsto> samplePlan]\<rparr>"

definition structuredManager :: PersistenceManager where
  "structuredManager =
     \<lparr>db = Some \<lparr>plansStore = [''p1'' \<mapsto> samplePlan],
                  activitiesStore = [''a1'' \<mapsto> (brunch, ''p1'')]\<rparr>,
      localStorage = Map.empty\<rparr>"

text \<open>The version that \<open>getPlan\<close> reads after an update, if the update succeeded.\<close>

definition versionAfter :: "persist_error + PersistenceManager \<Rightarrow> string \<Rightarrow> int option" where
  "versionAfter r i = (case r of Inl e \<Rightarrow> None | Inr pm \<Rightarrow> map_option version (getPlan pm i))"

section \<open>Printing and reading decimal numbers\<close>

lemma digit_val_digit_char: "d < 10 \<Longrightarrow> digit_val (digit_char d) = Some d"
  by (simp add: digit_val_def digit_char_def)

lemma is_digit_digit_char: "d < 10 \<Longrightarrow> is_digit (digit_char d)"
  by (simp add: is_digit_def digit_val_digit_char)

lemma digit_not_space: "is_digit c \<Longrightarrow> \<not> is_space c"
  by (auto simp: is_digit_def digit_val_def is_space_def Let_def split: if_splits)

lemma digit_not_sign: "is_digit c \<Longrightarrow> c \<noteq> CHR ''-'' \<and> c \<noteq> CHR ''+'' \<and> c \<noteq> CHR '':''"
  by (auto simp: is_digit_def digit_val_def Let_def split: if_splits)

lemma dec_digits: "list_all is_digit (dec n) \<and> dec n \<noteq> []"
proof (induction n rule: dec.induct)
  case (1 n)
  show ?case
  proof (cases "n < 10")
    case True
    then show ?thesis by (simp add: dec.simps [of n] is_digit_digit_char)
  next
    case False
    with 1 show ?thesis by (simp add: dec.simps [of n] is_digit_digit_char)
  qed
qed

lemma digits_value_append:
  "list_all is_digit xs \<Longrightarrow> digits_value acc (xs @ ys) = digits_value (digits_value acc xs) ys"
  by (induction xs arbitrary: acc) (auto simp: is_digit_def split: option.splits)

lemma digits_value_dec: "digits_value 0 (dec n) = n"
proof (induction n rule: dec.induct)
  case (1 n)
  show ?case
  proof (cases "n < 10")
    case True
    then show ?thesis by (simp add: dec.simps [of n] digit_val_digit_char)
  next
    case False
    then have "digits_value 0 (dec n) = digits_value (digits_value 0 (dec (n div 10))) [digit_char (n mod 10)]"
      by (simp add: dec.simps [of n] digits_value_append dec_digits)
    also have "\<dots> = 10 * (n div 10) + n mod 10"
      using 1 False by (simp add: digit_val_digit_char)
    finally show ?thesis by simp
  qed
qed

lemma digits_value_zeros: "digits_value 0 (replicate k (CHR ''0'') @ s) = digits_value 0 s"
  by (induction k) (simp_all add: digit_val_def)

lemma parseInt_digits:
  assumes "list_all is_digit ds" "ds \<noteq> []"
  shows "parseInt ds = Some (int (digits_value 0 ds))"
proof -
  have c: "is_digit (hd ds)" using assms by (cases ds) auto
  have t: "dropWhile is_space ds = ds" using assms(2) c digit_not_space by (cases ds) auto
  have tw: "takeWhile is_digit ds = ds" using assms(1) by (simp add: list_all_iff)
  show ?thesis
    using digit_not_sign [OF c] assms(2) by (simp add: parseInt_def Let_def t tw)
qed

lemma split_colon_two:
  assumes "CHR '':'' \<notin> set xs" "CHR '':'' \<notin> set ys"
  shows "split_colon (xs @ CHR '':'' # ys) = [xs, ys]"
proof -
  have a: "CHR '':'' \<notin> set zs \<Longrightarrow> split_colon zs = [zs]" for zs
    by (induction zs) auto
  from assms(1) show ?thesis
    by (induction xs) (auto simp: a [OF assms(2)])
qed

lemma is_digit_zero: "is_digit (CHR ''0'')"
  by (simp add: is_digit_def digit_val_def)

lemma digit_char_zero: "digit_char 0 = CHR ''0''"
  by code_simp

lemma pad_digits: "list_all is_digit s \<Longrightarrow> list_all is_digit (padStart2 s)"
  by (auto simp: padStart2_def list_all_iff is_digit_zero)

lemma digits_no_colon: "list_all is_digit s \<Longrightarrow> CHR '':'' \<notin> set s"
  using digit_not_sign by (auto simp: list_all_iff)

lemma parseInt_pad_dec: "parseInt (padStart2 (dec n)) = Some (int n)"
proof -
  have d: "list_all is_digit (padStart2 (dec n))" by (simp add: pad_digits dec_digits)
  have ne: "padStart2 (dec n) \<noteq> []" using dec_digits by (simp add: padStart2_def)
  have "digits_value 0 (padStart2 (dec n)) = n"
    by (simp add: padStart2_def digits_value_zeros digits_value_dec)
  with parseInt_digits [OF d ne] show ?thesis by simp
qed

lemma toMinutes_toTimeString: "0 \<le> n \<Longrightarrow> toMinutes (toTimeString n) = Some n"
proof -
  assume n: "0 \<le> n"
  define h where "h = nat (n div 60)"
  define m where "m = nat (n mod 60)"
  have hs: "String_of (n div 60) = dec h" using n by (simp add: String_of_def h_def)
  have ms: "String_of (js_rem n 60) = dec m" using n by (simp add: String_of_def m_def js_rem_def)
  have sp: "split_colon (padStart2 (dec h) @ CHR '':'' # padStart2 (dec m)) = [padStart2 (dec h), padStart2 (dec m)]"
    by (rule split_colon_two) (simp_all add: digits_no_colon pad_digits dec_digits)
  have "0 \<le> n div 60" using n by (simp add: pos_imp_zdiv_nonneg_iff)
  then have "int h * 60 + int m = n" using n by (simp add: h_def m_def)
  then show ?thesis
    by (simp add: toMinutes_def toTimeString_def Let_def hs ms sp parseInt_pad_dec)
qed

lemma dec_two: "n < 100 \<Longrightarrow> padStart2 (dec n) = [digit_char (n div 10), digit_char (n mod 10)]"
proof (cases "n < 10")
  case True
  then show ?thesis by (simp add: padStart2_def dec.simps [of n] digit_char_zero)
next
  case False
  assume "n < 100"
  then have "n div 10 < 10" by simp
  with False show ?thesis by (simp add: padStart2_def dec.simps [of n] dec.simps [of "n div 10"])
qed


section \<open>Facts about the conflict check\<close>

lemma overlaps_iff:
  "overlaps c a \<longleftrightarrow>
     (\<exists>cs as dc da. toMinutes (start c) = Some cs \<and> toMinutes (start a) = Some as \<and>
        durationMins c = Some dc \<and> durationMins a = Some da \<and>
        cs < as + da \<and> as < cs + dc)"
  by (auto simp: overlaps_def js_lt_def js_add_def Let_def split: option.splits)

lemma hasConflict_iff_ex:
  "hasConflict acts candidate excludeId \<longleftrightarrow>
     (\<exists>a \<in> set acts. day a = day candidate \<and> Some (ident a) \<noteq> excludeId \<and>
        overlaps candidate a)"
  by (auto simp: hasConflict_def list_ex_iff)

lemma toMinutes_samples:
  "toMinutes ''11:00'' = Some 660" "toMinutes ''12:00'' = Some 720"
  "toMinutes ''09:30'' = Some 570" "toMinutes ''10:00'' = Some 600"
  by code_simp+


section \<open>Facts about the time grid\<close>

lemma String_of_nonneg: "0 \<le> k \<Longrightarrow> String_of k = dec (nat k)"
  by (simp add: String_of_def)

lemma js_rem_nonneg: "0 \<le> n \<Longrightarrow> js_rem n 60 = n mod 60"
  by (simp add: js_rem_def)

lemma toTimeString_in_day:
  assumes "0 \<le> n" "n \<le> 1439"
  shows "toTimeString n =
           [digit_char (nat (n div 60) div 10), digit_char (nat (n div 60) mod 10), CHR '':'',
            digit_char (nat (n mod 60) div 10), digit_char (nat (n mod 60) mod 10)]"
proof -
  have h: "0 \<le> n div 60" "n div 60 < 100" using assms by (simp_all add: pos_imp_zdiv_nonneg_iff) 
  have m: "0 \<le> n mod 60" "n mod 60 < 100" using assms by simp_all
  have hs: "padStart2 (String_of (n div 60)) =
      [digit_char (nat (n div 60) div 10), digit_char (nat (n div 60) mod 10)]"
    using h by (simp add: String_of_nonneg dec_two)
  have ms: "padStart2 (String_of (js_rem n 60)) =
      [digit_char (nat (n mod 60) div 10), digit_char (nat (n mod 60) mod 10)]"
    using m assms by (simp add: js_rem_nonneg String_of_nonneg dec_two)
  show ?thesis by (simp add: toTimeString_def Let_def hs ms)
qed


lemma dec_two_digits: "10 \<le> k \<Longrightarrow> padStart2 (dec k) = dec k"
proof -
  assume k: "10 \<le> k"
  have "dec k = dec (k div 10) @ [digit_char (k mod 10)]" using k by (simp add: dec.simps [of k])
  moreover have "dec (k div 10) \<noteq> []" using dec_digits by simp
  ultimately have "2 \<le> length (dec k)" by (cases "dec (k div 10)") simp_all
  then show ?thesis by (simp add: padStart2_def)
qed

lemma toTimeString_late:
  assumes "1440 \<le> n"
  shows "toTimeString n =
           String_of (n div 60) @
           [CHR '':'', digit_char (nat (n mod 60) div 10), digit_char (nat (n mod 60) mod 10)]"
proof -
  have h: "24 \<le> n div 60" using assms by arith
  have m: "0 \<le> n mod 60" "n mod 60 < 100" by simp_all
  have hs: "padStart2 (String_of (n div 60)) = String_of (n div 60)"
    using h by (simp add: String_of_nonneg dec_two_digits)
  have ms: "padStart2 (String_of (js_rem n 60)) =
      [digit_char (nat (n mod 60) div 10), digit_char (nat (n mod 60) mod 10)]"
    using m assms by (simp add: js_rem_nonneg String_of_nonneg dec_two)
  show ?thesis by (simp add: toTimeString_def Let_def hs ms)
qed

lemma clock_text_is_toTimeString:
  assumes "h \<le> 23" "m \<le> 59"
  shows "[digit_char (h div 10), digit_char (h mod 10), CHR '':'',
          digit_char (m div 10), digit_char (m mod 10)] = toTimeString (int h * 60 + int m)"
proof -
  have d: "(int h * 60 + int m) div 60 = int h" "(int h * 60 + int m) mod 60 = int m"
    using assms by simp_all
  have "0 \<le> int h * 60 + int m" "int h * 60 + int m \<le> 1439" using assms by simp_all
  then have "toTimeString (int h * 60 + int m) =
           [digit_char (nat ((int h * 60 + int m) div 60) div 10),
            digit_char (nat ((int h * 60 + int m) div 60) mod 10), CHR '':'',
            digit_char (nat ((int h * 60 + int m) mod 60) div 10),
            digit_char (nat ((int h * 60 + int m) mod 60) mod 10)]"
    by (rule toTimeString_in_day)
  then show ?thesis unfolding d by simp
qed

section \<open>Facts about slot rounding and clamping\<close>

lemma roundToStep_slot: "roundToStep n 15 = ((2 * n + 15) div 30) * 15"
proof -
  have "(of_int n / 15 + 1 / 2 :: rat) = of_int (2 * n + 15) / of_int 30"
    by (simp add: field_simps)
  then have "floor (of_int n / 15 + 1 / 2 :: rat) = (2 * n + 15) div 30"
    by (simp only: floor_divide_of_int_eq)
  then show ?thesis
    by (simp add: roundToStep_def Math_round_def)
qed



lemma cleaned_duration:
  "durationMins (cleaned draft) =
     (case durationMins draft of None \<Rightarrow> None
      | Some n \<Rightarrow> Some (max 15 (((2 * n + 15) div 30) * 15)))"
  by (simp add: cleaned_def roundToStep_js_def js_max_def MIN_SLOT_MINUTES_def roundToStep_slot
           split: option.splits)





section \<open>Facts about edits\<close>

lemma cleaned_title: "title (cleaned draft) \<noteq> []"
  by (simp add: cleaned_def)

lemma find_mem: "find P xs = Some x \<Longrightarrow> x \<in> set xs"
  by (auto simp: find_Some_iff)


section \<open>Facts about \<open>normalizeTime\<close>\<close>

lemma dropWhile_none: "\<forall>c \<in> set xs. \<not> P c \<Longrightarrow> dropWhile P xs = xs"
  by (cases xs) auto

lemma JS_trim_digits:
  assumes "list_all is_digit ds"
  shows "JS_trim ds = ds"
proof -
  have ns: "\<forall>c \<in> set ds. \<not> is_space c"
    using assms digit_not_space by (auto simp: list_all_iff)
  have a: "dropWhile is_space ds = ds" by (rule dropWhile_none [OF ns])
  have "\<forall>c \<in> set (rev ds). \<not> is_space c" using ns by simp
  then have b: "dropWhile is_space (rev ds) = rev ds" by (rule dropWhile_none)
  show ?thesis by (simp add: JS_trim_def a b)
qed

lemma Number_str_digits:
  assumes "list_all is_digit ds" "ds \<noteq> []"
  shows "Number_str ds = Some (int (digits_value 0 ds))"
proof -
  have c: "is_digit (hd ds)" using assms by (cases ds) auto
  show ?thesis
    using digit_not_sign [OF c] assms by (simp add: Number_str_def JS_trim_digits Let_def)
qed

lemma time_format_cases:
  assumes "time_format val"
  obtains hs m1 m2 where "val = hs @ [CHR '':'', m1, m2]" "list_all is_digit hs" "hs \<noteq> []"
    "length hs \<le> 2" "is_digit m1" "is_digit m2"
proof -
  from assms consider
      (one) h1 c m1 m2 where "val = [h1, c, m1, m2]"
    | (two) h1 h2 c m1 m2 where "val = [h1, h2, c, m1, m2]"
    by (cases val rule: time_format.cases) auto
  then show ?thesis
  proof cases
    case one
    with assms that [of "[h1]" m1 m2] show ?thesis by simp
  next
    case two
    with assms that [of "[h1, h2]" m1 m2] show ?thesis by simp
  qed
qed

lemma normalizeTime_format:
  assumes "time_format val"
  shows "\<exists>hv mv. map Number_str (split_colon val) = [Some (int hv), Some (int mv)] \<and>
           normalizeTime val =
             [digit_char (min hv 23 div 10), digit_char (min hv 23 mod 10), CHR '':'',
              digit_char (min mv 59 div 10), digit_char (min mv 59 mod 10)]"
proof -
  from assms obtain hs m1 m2 where v: "val = hs @ [CHR '':'', m1, m2]"
    and hs: "list_all is_digit hs" "hs \<noteq> []" "length hs \<le> 2" and ms: "is_digit m1" "is_digit m2"
    by (rule time_format_cases)
  define hv where "hv = digits_value 0 hs"
  define mv where "mv = digits_value 0 [m1, m2]"
  have msd: "list_all is_digit [m1, m2]" using ms by simp
  have sp: "split_colon val = [hs, [m1, m2]]"
    unfolding v using split_colon_two [of hs "[m1, m2]"] digits_no_colon [OF hs(1)] digits_no_colon [OF msd]
    by simp
  have nh: "Number_str hs = Some (int hv)" using hs by (simp add: Number_str_digits hv_def)
  have nm: "Number_str [m1, m2] = Some (int mv)" using msd by (simp add: Number_str_digits mv_def)
  have mp: "map Number_str (split_colon val) = [Some (int hv), Some (int mv)]"
    by (simp add: sp nh nm)
  have ch: "js_clamp (Some (int hv)) (Some 0) (Some 23) = Some (int (min hv 23))"
    by (simp add: js_clamp_def js_min_def js_max_def)
  have cm: "js_clamp (Some (int mv)) (Some 0) (Some 59) = Some (int (min mv 59))"
    by (simp add: js_clamp_def js_min_def js_max_def)
  have ph: "padStart2 (String_of (int (min hv 23))) = [digit_char (min hv 23 div 10), digit_char (min hv 23 mod 10)]"
    by (simp add: String_of_nonneg dec_two)
  have pm: "padStart2 (String_of (int (min mv 59))) = [digit_char (min mv 59 div 10), digit_char (min mv 59 mod 10)]"
    by (simp add: String_of_nonneg dec_two)
  have nt: "normalizeTime val =
             [digit_char (min hv 23 div 10), digit_char (min hv 23 mod 10), CHR '':'',
              digit_char (min mv 59 div 10), digit_char (min mv 59 mod 10)]"
    using assms
    by (simp add: normalizeTime_def mp ch cm ph pm piece_def pad_num_def Let_def)
  show ?thesis
    by (rule exI [of _ hv], rule exI [of _ mv]) (rule conjI [OF mp nt])
qed

section \<open>Facts about committed edits\<close>

lemma saveEdit_cleaned_draft:
  "saveEdit prev (Some draft) =
     (if hasConflict prev (cleaned draft) (Some (ident draft)) then (prev, ConflictRejected)
      else (map (\<lambda>a. if ident a = ident draft then cleaned draft else a) prev, Committed))
   \<and> (\<not> time_format (start draft) \<longrightarrow> start (cleaned draft) = ''08:00'')
   \<and> (time_format (start draft) \<longrightarrow>
        (\<exists>hv mv. map Number_str (split_colon (start draft)) = [Some (int hv), Some (int mv)] \<and>
           start (cleaned draft) =
             [digit_char (min hv 23 div 10), digit_char (min hv 23 mod 10), CHR '':'',
              digit_char (min mv 59 div 10), digit_char (min mv 59 mod 10)]))
   \<and> durationMins (cleaned draft) =
        (case durationMins draft of None \<Rightarrow> None
         | Some n \<Rightarrow> Some (max 15 (((2 * n + 15) div 30) * 15)))
   \<and> title (cleaned draft) =
        (if JS_trim (title draft) = [] then ''Untitled'' else JS_trim (title draft))
   \<and> ident (cleaned draft) = ident draft \<and> category (cleaned draft) = category draft
   \<and> day (cleaned draft) = day draft \<and> mood (cleaned draft) = mood draft
   \<and> notes_a (cleaned draft) = notes_a draft"
proof -
  have id: "ident (cleaned draft) = ident draft" by (simp add: cleaned_def)
  have 1: "saveEdit prev (Some draft) =
     (if hasConflict prev (cleaned draft) (Some (ident draft)) then (prev, ConflictRejected)
      else (map (\<lambda>a. if ident a = ident draft then cleaned draft else a) prev, Committed))"
    by (simp add: saveEdit_def Let_def id)
  have 2: "\<not> time_format (start draft) \<longrightarrow> start (cleaned draft) = ''08:00''"
    by (simp add: cleaned_def normalizeTime_def)
  have st: "start (cleaned draft) = normalizeTime (start draft)" by (simp add: cleaned_def)
  have 3: "time_format (start draft) \<longrightarrow>
        (\<exists>hv mv. map Number_str (split_colon (start draft)) = [Some (int hv), Some (int mv)] \<and>
           start (cleaned draft) =
             [digit_char (min hv 23 div 10), digit_char (min hv 23 mod 10), CHR '':'',
              digit_char (min mv 59 div 10), digit_char (min mv 59 mod 10)])"
    unfolding st using normalizeTime_format [of "start draft"] by blast
  have 4: "durationMins (cleaned draft) =
        (case durationMins draft of None \<Rightarrow> None
         | Some n \<Rightarrow> Some (max 15 (((2 * n + 15) div 30) * 15)))"
    by (rule cleaned_duration)
  have 6: "title (cleaned draft) =
        (if JS_trim (title draft) = [] then ''Untitled'' else JS_trim (title draft))"
    by (simp add: cleaned_def)
  have 7: "category (cleaned draft) = category draft \<and> day (cleaned draft) = day draft \<and>
           mood (cleaned draft) = mood draft \<and> notes_a (cleaned draft) = notes_a draft"
    by (simp add: cleaned_def)
  show ?thesis using 1 2 3 4 6 7 id by blast
qed

section \<open>Facts about the next free start time\<close>








section \<open>Facts about the window bounds\<close>

lemma virtual_indices: "v_index ` set (map (virtualItem h) [a..b]) = {a..b}"
  by (auto simp: virtualItem_def image_iff)

lemma start_le_open:
  assumes "0 < h" "s < (of_int i + 1) * h" "0 \<le> ov" "0 \<le> i"
  shows "startIndex h s ov \<le> i"
proof -
  have "s / h < of_int (i + 1)" using assms(1,2) by (simp add: pos_divide_less_eq)
  then have "floor (s / h) < i + 1" by (simp only: floor_less_iff)
  then show ?thesis using assms(3,4) by (simp add: startIndex_def)
qed

lemma start_le_closed:
  assumes "0 < h" "s \<le> (of_int i + 1) * h" "1 \<le> ov" "0 \<le> i"
  shows "startIndex h s ov \<le> i"
proof -
  have "s / h \<le> of_int (i + 1)" using assms(1,2) by (simp add: pos_divide_le_eq)
  then have "floor (s / h) \<le> i + 1" by (metis floor_mono floor_of_int)
  then show ?thesis using assms(3,4) by (simp add: startIndex_def)
qed

lemma end_ge:
  assumes "0 < h" "of_int i * h \<le> s + c" "0 \<le> ov" "i < int n"
  shows "i \<le> endIndex n h c s ov"
proof -
  have "of_int i \<le> (s + c) / h" using assms(1,2) by (simp add: pos_le_divide_eq)
  then have "of_int i \<le> (of_int (ceiling ((s + c) / h)) :: rat)"
    using le_of_int_ceiling [of "(s + c) / h"] by (rule order_trans)
  then have "i \<le> ceiling ((s + c) / h)" by (simp only: of_int_le_iff)
  then show ?thesis using assms(3,4) by (simp add: endIndex_def)
qed

section \<open>Facts about plan updates\<close>

lemma updatePlanInIndexedDB_version:
  assumes "plansStore d i = Some existingPlan" "plan_id existingPlan = i" "u_id updates = None"
    and "u_activities updates = None"
  shows "\<exists>st. updatePlanInIndexedDB d i updates now = Inr st \<and>
           map_option version (plansStore st i) = Some (version existingPlan + 1)"
  using assms by (simp add: updatePlanInIndexedDB_def spread_def Let_def)

lemma updatePlanInLocalStorage_version:
  assumes "storage (planKey i) = Some plan"
  shows "\<exists>st. updatePlanInLocalStorage storage i updates now = Inr st \<and>
           map_option version (st (planKey i))
             = Some (case u_version updates of None \<Rightarrow> version plan | Some v \<Rightarrow> v)"
  using assms by (simp add: updatePlanInLocalStorage_def spread_def Let_def)
section \<open>The conflict check\<close>

text \<open>
  C1. \<open>hasConflict\<close> is true exactly when some activity of the list that is on the
  candidate's day and does not carry the excluded id overlaps the candidate as half-open
  intervals: both starts and both durations are numbers, the candidate starts before the
  other ends and the other starts before the candidate ends, an end being start plus
  duration. An activity
  that ends exactly when the candidate starts, or starts exactly when the candidate ends,
  contributes nothing to the result, wherever it stands in the list.
\<close>

theorem hasConflict_half_open:
  "(hasConflict acts candidate excludeId \<longleftrightarrow>
      (\<exists>a \<in> set acts. day a = day candidate \<and> Some (ident a) \<noteq> excludeId \<and>
         (\<exists>cs as dc da.
            toMinutes (start candidate) = Some cs \<and> toMinutes (start a) = Some as \<and>
            durationMins candidate = Some dc \<and> durationMins a = Some da \<and>
            cs < as + da \<and> as < cs + dc)))
   \<and> ((\<exists>s db. toMinutes (start b) = Some s \<and> durationMins b = Some db \<and>
            toMinutes (start candidate) = Some (s + db))
        \<or> (\<exists>s dc. toMinutes (start candidate) = Some s \<and> durationMins candidate = Some dc \<and>
            toMinutes (start b) = Some (s + dc))
       \<longrightarrow> hasConflict (xs @ b # ys) candidate excludeId
            = hasConflict (xs @ ys) candidate excludeId)"
proof (intro conjI impI)
  show "hasConflict acts candidate excludeId \<longleftrightarrow>
      (\<exists>a \<in> set acts. day a = day candidate \<and> Some (ident a) \<noteq> excludeId \<and>
         (\<exists>cs as dc da.
            toMinutes (start candidate) = Some cs \<and> toMinutes (start a) = Some as \<and>
            durationMins candidate = Some dc \<and> durationMins a = Some da \<and>
            cs < as + da \<and> as < cs + dc))"
    by (simp add: hasConflict_iff_ex overlaps_iff)
next
  assume "(\<exists>s db. toMinutes (start b) = Some s \<and> durationMins b = Some db \<and>
            toMinutes (start candidate) = Some (s + db))
        \<or> (\<exists>s dc. toMinutes (start candidate) = Some s \<and> durationMins candidate = Some dc \<and>
            toMinutes (start b) = Some (s + dc))"
  then have "\<not> overlaps candidate b"
    by (auto simp: overlaps_iff)
  then show "hasConflict (xs @ b # ys) candidate excludeId
            = hasConflict (xs @ ys) candidate excludeId"
    by (auto simp: hasConflict_iff_ex)
qed

theorem hasConflict_half_open_witness:
  "hasConflict [walk] hike None \<and> \<not> hasConflict [brunch] lunch None \<and>
   hasConflict ([walk] @ brunch # []) lunch None = hasConflict ([walk] @ []) lunch None"
proof -
  have a: "hasConflict [walk] hike None"
    using hasConflict_half_open [of "[walk]" hike None walk "[]" "[]"]
    by (simp add: walk_def hike_def toMinutes_samples)
  have b: "\<not> hasConflict [brunch] lunch None"
    using hasConflict_half_open [of "[brunch]" lunch None brunch "[]" "[]"]
    by (simp add: brunch_def lunch_def toMinutes_samples)
  have c: "hasConflict ([walk] @ brunch # []) lunch None = hasConflict ([walk] @ []) lunch None"
    using hasConflict_half_open [of "[]" lunch None brunch "[walk]" "[]"]
    by (simp add: brunch_def lunch_def toMinutes_samples)
  show ?thesis using a b c by simp
qed

text \<open>
  C4. In a list whose activities at different positions never overlap when they are on
  the same day, checking any activity of the list against the list with its own id
  excluded reports no conflict.
\<close>

theorem hasConflict_self_excluded:
  assumes pairwise: "\<forall>i<length xs. \<forall>j<length xs.
            i \<noteq> j \<and> day (xs ! i) = day (xs ! j) \<longrightarrow> \<not> overlaps (xs ! i) (xs ! j)"
      and mem: "a \<in> set xs"
  shows "\<not> hasConflict xs a (Some (ident a))"
proof
  assume "hasConflict xs a (Some (ident a))"
  then obtain b where b: "b \<in> set xs" "day b = day a" "ident b \<noteq> ident a" "overlaps a b"
    by (auto simp: hasConflict_iff_ex)
  from mem obtain i where i: "i < length xs" "xs ! i = a" by (auto simp: in_set_conv_nth)
  from b(1) obtain j where j: "j < length xs" "xs ! j = b" by (auto simp: in_set_conv_nth)
  from b(3) i j have "i \<noteq> j" by auto
  with pairwise i j b(2) have "\<not> overlaps a b" by auto
  with b(4) show False by simp
qed

theorem hasConflict_self_excluded_witness:
  "\<not> hasConflict [brunch, lunch] lunch (Some (ident lunch)) \<and>
   \<not> hasConflict [brunch, lunch] brunch (Some (ident brunch))"
proof -
  have ov: "\<not> overlaps brunch lunch" "\<not> overlaps lunch brunch"
    by (simp_all add: overlaps_iff brunch_def lunch_def toMinutes_samples)
  have p: "\<forall>i<length [brunch, lunch]. \<forall>j<length [brunch, lunch].
            i \<noteq> j \<and> day ([brunch, lunch] ! i) = day ([brunch, lunch] ! j)
            \<longrightarrow> \<not> overlaps ([brunch, lunch] ! i) ([brunch, lunch] ! j)"
    using ov by (auto simp: less_Suc_eq nth_Cons')
  show ?thesis
    using hasConflict_self_excluded [OF p, of lunch] hasConflict_self_excluded [OF p, of brunch]
    by simp
qed

section \<open>Rejected placements\<close>

text \<open>
  C2. When \<open>hasConflict\<close> reports a conflict for the candidate of a drag move, of an
  external-drop insert or of an edit, the operation returns the previous list itself
  and the conflict notification; and whenever \<open>handleDrop\<close> or \<open>saveEdit\<close> ends with
  the conflict notification, the list it returns is the previous list.
\<close>

theorem conflict_leaves_list_unchanged:
  "(find (\<lambda>a. ident a = internalId) prev = Some found \<and>
    hasConflict prev
      (found\<lparr>day := d, start := toTimeString_js
          (js_clamp (Some mins) (Some (startHour * 60))
                    (js_sub (Some (endHour * 60)) (durationMins found)))\<rparr>)
      (Some internalId)
    \<longrightarrow> moveActivity prev internalId d mins startHour endHour = (prev, ConflictRejected))
   \<and> (p_title payload = Some t \<and> t \<noteq> [] \<and> p_category payload = Some c \<and>
      p_durationMins payload = Some n \<and> n \<noteq> 0 \<and>
      hasConflict prev
        (newActivity t c n (p_mood payload) (p_notes payload) newId d mins startHour endHour)
        None
    \<longrightarrow> insertActivity prev payload newId d mins startHour endHour = (prev, ConflictRejected))
   \<and> (hasConflict prev (cleaned draft) (Some (ident (cleaned draft)))
    \<longrightarrow> saveEdit prev (Some draft) = (prev, ConflictRejected))
   \<and> (snd (handleDrop prev minsOpt internalId external newId d startHour endHour)
         = ConflictRejected
    \<longrightarrow> fst (handleDrop prev minsOpt internalId external newId d startHour endHour) = prev)
   \<and> (snd (saveEdit prev editDraft) = ConflictRejected
    \<longrightarrow> fst (saveEdit prev editDraft) = prev)"
proof (intro conjI impI)
  assume "find (\<lambda>a. ident a = internalId) prev = Some found \<and>
    hasConflict prev
      (found\<lparr>day := d, start := toTimeString_js
          (js_clamp (Some mins) (Some (startHour * 60))
                    (js_sub (Some (endHour * 60)) (durationMins found)))\<rparr>)
      (Some internalId)"
  then show "moveActivity prev internalId d mins startHour endHour = (prev, ConflictRejected)"
    by (simp add: moveActivity_def Let_def)
next
  assume "p_title payload = Some t \<and> t \<noteq> [] \<and> p_category payload = Some c \<and>
      p_durationMins payload = Some n \<and> n \<noteq> 0 \<and>
      hasConflict prev
        (newActivity t c n (p_mood payload) (p_notes payload) newId d mins startHour endHour)
        None"
  then show "insertActivity prev payload newId d mins startHour endHour = (prev, ConflictRejected)"
    by (simp add: insertActivity_def Let_def)
next
  assume "hasConflict prev (cleaned draft) (Some (ident (cleaned draft)))"
  then show "saveEdit prev (Some draft) = (prev, ConflictRejected)"
    by (simp add: saveEdit_def Let_def)
next
  assume "snd (handleDrop prev minsOpt internalId external newId d startHour endHour)
         = ConflictRejected"
  then show "fst (handleDrop prev minsOpt internalId external newId d startHour endHour) = prev"
    by (auto simp: handleDrop_def moveActivity_def insertActivity_def Let_def
             split: option.splits ExternalData.splits if_splits)
next
  assume "snd (saveEdit prev editDraft) = ConflictRejected"
  then show "fst (saveEdit prev editDraft) = prev"
    by (auto simp: saveEdit_def Let_def split: option.splits if_splits)
qed

theorem conflict_leaves_list_unchanged_witness:
  "moveActivity [walk, hike\<lparr>start := ''12:00''\<rparr>] ''a4'' Saturday 600 5 23
     = ([walk, hike\<lparr>start := ''12:00''\<rparr>], ConflictRejected)
   \<and> insertActivity [walk] hikePayload ''n1'' Saturday 600 5 23 = ([walk], ConflictRejected)
   \<and> saveEdit [walk, brunch] (Some (brunch\<lparr>start := ''10:00''\<rparr>))
     = ([walk, brunch], ConflictRejected)
   \<and> fst (handleDrop [walk] (Some 600) [] (Payload hikePayload) ''n1'' Saturday 5 23) = [walk]
   \<and> fst (saveEdit [walk, brunch] (Some (brunch\<lparr>start := ''10:00''\<rparr>))) = [walk, brunch]"
proof -
  have f: "find (\<lambda>a. ident a = ''a4'') [walk, hike\<lparr>start := ''12:00''\<rparr>]
             = Some (hike\<lparr>start := ''12:00''\<rparr>)"
    by (simp add: walk_def hike_def)
  have m: "hasConflict [walk, hike\<lparr>start := ''12:00''\<rparr>]
      (hike\<lparr>start := ''12:00''\<rparr>\<lparr>day := Saturday, start := toTimeString_js
          (js_clamp (Some 600) (Some (5 * 60))
                    (js_sub (Some (23 * 60)) (durationMins (hike\<lparr>start := ''12:00''\<rparr>))))\<rparr>)
      (Some ''a4'')"
    by code_simp
  have p: "p_title hikePayload = Some ''Hike'' \<and> ''Hike'' \<noteq> [] \<and>
      p_category hikePayload = Some Outdoor \<and> p_durationMins hikePayload = Some 90 \<and>
      (90::int) \<noteq> 0"
    by (simp add: hikePayload_def)
  have i: "hasConflict [walk]
        (newActivity ''Hike'' Outdoor 90 (p_mood hikePayload) (p_notes hikePayload)
           ''n1'' Saturday 600 5 23) None"
    by code_simp
  have e: "hasConflict [walk, brunch] (cleaned (brunch\<lparr>start := ''10:00''\<rparr>))
             (Some (ident (cleaned (brunch\<lparr>start := ''10:00''\<rparr>))))"
    by code_simp
  have h: "snd (handleDrop [walk] (Some 600) [] (Payload hikePayload) ''n1'' Saturday 5 23)
             = ConflictRejected"
    by code_simp
  have s: "snd (saveEdit [walk, brunch] (Some (brunch\<lparr>start := ''10:00''\<rparr>)))
             = ConflictRejected"
    by code_simp
  note T = conflict_leaves_list_unchanged
  from T [where internalId = "''a4''" and prev = "[walk, hike\<lparr>start := ''12:00''\<rparr>]"
            and found = "hike\<lparr>start := ''12:00''\<rparr>" and d = Saturday and mins = 600
            and startHour = 5 and endHour = 23]
  have "moveActivity [walk, hike\<lparr>start := ''12:00''\<rparr>] ''a4'' Saturday 600 5 23
     = ([walk, hike\<lparr>start := ''12:00''\<rparr>], ConflictRejected)"
    using f m by blast
  moreover
  from T [where prev = "[walk]" and payload = hikePayload and t = "''Hike''" and c = Outdoor
            and n = 90 and newId = "''n1''" and d = Saturday and mins = 600
            and startHour = 5 and endHour = 23 and minsOpt = "Some 600"
            and internalId = "[]" and external = "Payload hikePayload"]
  have "insertActivity [walk] hikePayload ''n1'' Saturday 600 5 23 = ([walk], ConflictRejected)"
    and "fst (handleDrop [walk] (Some 600) [] (Payload hikePayload) ''n1'' Saturday 5 23) = [walk]"
    using p i h by blast+
  moreover
  from T [where prev = "[walk, brunch]" and draft = "brunch\<lparr>start := ''10:00''\<rparr>"
            and editDraft = "Some (brunch\<lparr>start := ''10:00''\<rparr>)"]
  have "saveEdit [walk, brunch] (Some (brunch\<lparr>start := ''10:00''\<rparr>))
     = ([walk, brunch], ConflictRejected)"
    and "fst (saveEdit [walk, brunch] (Some (brunch\<lparr>start := ''10:00''\<rparr>))) = [walk, brunch]"
    using e s by blast+
  ultimately show ?thesis by blast
qed

section \<open>Formatting minutes as clock text\<close>

text \<open>
  C7, as the claim states it, fails: \<open>toTimeString\<close> does not clamp its input. 1440
  minutes are printed as 24:00, while the clamped input would give 23:59.
\<close>

theorem toTimeString_counterexample:
  "toTimeString 1440 = ''24:00'' \<and> toTimeString (clamp 1440 0 1439) = ''23:59''"
  by code_simp

text \<open>
  C7, amended. \<open>toTimeString\<close> does not clamp. For every number of minutes from 0 to
  1439 it returns five characters: the two digits of the hour, which is at most 23, a
  colon, and the two digits of the minute, which is at most 59; and \<open>toMinutes\<close> reads
  the input back from this text. For every number of minutes from 1440 on it returns the
  decimal text of the hour, which is at least 24, a colon and the two digits of the
  minute, which is at most 59; \<open>toMinutes\<close> reads the input back, so the text is not
  the text of the clamped input, and it is no text of an hour up to 23 and a minute up
  to 59.
\<close>

theorem toTimeString_within_day:
  "(0 \<le> n \<and> n \<le> 1439 \<longrightarrow>
     (\<exists>h m. h \<le> 23 \<and> m \<le> 59 \<and> int h = n div 60 \<and> int m = n mod 60 \<and>
        toTimeString n =
          [digit_char (h div 10), digit_char (h mod 10), CHR '':'',
           digit_char (m div 10), digit_char (m mod 10)])
     \<and> length (toTimeString n) = 5
     \<and> toMinutes (toTimeString n) = Some n)
   \<and> (1440 \<le> n \<longrightarrow>
     24 \<le> n div 60
     \<and> (\<exists>m. m \<le> 59 \<and> int m = n mod 60 \<and>
          toTimeString n =
            String_of (n div 60) @ [CHR '':'', digit_char (m div 10), digit_char (m mod 10)])
     \<and> toMinutes (toTimeString n) = Some n
     \<and> toTimeString n \<noteq> toTimeString (clamp n 0 1439)
     \<and> \<not> (\<exists>h m. h \<le> 23 \<and> m \<le> 59 \<and>
            toTimeString n =
              [digit_char (h div 10), digit_char (h mod 10), CHR '':'',
               digit_char (m div 10), digit_char (m mod 10)]))"
proof (intro conjI impI)
  assume a: "0 \<le> n \<and> n \<le> 1439"
  have h: "0 \<le> n div 60" "n div 60 \<le> 23" using a by arith+
  have m: "0 \<le> n mod 60" "n mod 60 \<le> 59" using a by simp_all
  have s: "toTimeString n =
           [digit_char (nat (n div 60) div 10), digit_char (nat (n div 60) mod 10), CHR '':'',
            digit_char (nat (n mod 60) div 10), digit_char (nat (n mod 60) mod 10)]"
    using a by (simp add: toTimeString_in_day)
  show "\<exists>h m. h \<le> 23 \<and> m \<le> 59 \<and> int h = n div 60 \<and> int m = n mod 60 \<and>
        toTimeString n =
          [digit_char (h div 10), digit_char (h mod 10), CHR '':'',
           digit_char (m div 10), digit_char (m mod 10)]"
    apply (rule exI [of _ "nat (n div 60)"])
    apply (rule exI [of _ "nat (n mod 60)"])
    using h m s by (simp add: nat_le_iff)
  show "length (toTimeString n) = 5" by (simp add: s)
  show "toMinutes (toTimeString n) = Some n" using a by (simp add: toMinutes_toTimeString)
next
  assume a: "1440 \<le> n"
  show "24 \<le> n div 60" using a by arith
  have m: "0 \<le> n mod 60" "n mod 60 \<le> 59" by simp_all
  show "\<exists>m. m \<le> 59 \<and> int m = n mod 60 \<and>
          toTimeString n =
            String_of (n div 60) @ [CHR '':'', digit_char (m div 10), digit_char (m mod 10)]"
    apply (rule exI [of _ "nat (n mod 60)"])
    using m toTimeString_late [OF a] by (simp add: nat_le_iff)
  show rt: "toMinutes (toTimeString n) = Some n" using a by (simp add: toMinutes_toTimeString)
  have c: "clamp n 0 1439 = 1439" using a by (simp add: clamp_def)
  show "toTimeString n \<noteq> toTimeString (clamp n 0 1439)"
  proof
    assume "toTimeString n = toTimeString (clamp n 0 1439)"
    then have "toMinutes (toTimeString n) = toMinutes (toTimeString 1439)" by (simp add: c)
    then have "n = 1439" using rt by (simp add: toMinutes_toTimeString)
    with a show False by simp
  qed
  show "\<not> (\<exists>h m. h \<le> 23 \<and> m \<le> 59 \<and>
            toTimeString n =
              [digit_char (h div 10), digit_char (h mod 10), CHR '':'',
               digit_char (m div 10), digit_char (m mod 10)])"
  proof
    assume "\<exists>h m. h \<le> 23 \<and> m \<le> 59 \<and>
            toTimeString n =
              [digit_char (h div 10), digit_char (h mod 10), CHR '':'',
               digit_char (m div 10), digit_char (m mod 10)]"
    then obtain h m where hm: "h \<le> 23" "m \<le> 59"
      and e: "toTimeString n =
              [digit_char (h div 10), digit_char (h mod 10), CHR '':'',
               digit_char (m div 10), digit_char (m mod 10)]"
      by blast
    have "toTimeString n = toTimeString (int h * 60 + int m)"
      unfolding e by (rule clock_text_is_toTimeString [OF hm])
    then have "toMinutes (toTimeString n) = toMinutes (toTimeString (int h * 60 + int m))"
      by simp
    then have "n = int h * 60 + int m" using rt by (simp add: toMinutes_toTimeString)
    with hm a show False by simp
  qed
qed

theorem toTimeString_within_day_witness:
  "toTimeString 575 = ''09:35'' \<and> length (toTimeString 575) = 5 \<and>
   toMinutes (toTimeString 575) = Some 575 \<and>
   toMinutes (toTimeString 1500) = Some 1500 \<and>
   toTimeString 1500 \<noteq> toTimeString (clamp 1500 0 1439)"
proof -
  have r: "(0::int) \<le> 575 \<and> (575::int) \<le> 1439" by simp
  have l: "(1440::int) \<le> 1500" by simp
  have v: "toTimeString 575 = ''09:35''" by code_simp
  note A = toTimeString_within_day [of 575, THEN conjunct1, THEN mp, OF r]
  note B = toTimeString_within_day [of 1500, THEN conjunct2, THEN mp, OF l]
  from A B v show ?thesis by blast
qed

section \<open>Committed external drops\<close>




section \<open>Titles\<close>

text \<open>
  C10. If every activity of the list has a non-empty title, so has every activity of the
  list after an external-drop insert, a drag move, any drop, an edit or a removal. An
  insert that is committed appends one activity whose title is the payload's title,
  which is not empty; a payload whose title is missing or empty is refused with the list
  unchanged. An edit that is committed replaces the activity with the draft's id by the
  cleaned draft and leaves the others as they are, and the title of the cleaned draft is
  the trimmed title of the draft, or "Untitled" when that is empty. After a move every
  title is one that was in the list before, and a removal only takes activities away.
\<close>

theorem titles_stay_nonempty:
  assumes inv: "\<forall>a \<in> set prev. title a \<noteq> []"
  shows "(\<forall>a \<in> set (fst (insertActivity prev payload newId d mins startHour endHour)).
            title a \<noteq> [])
       \<and> (\<forall>a \<in> set (fst (moveActivity prev internalId d mins startHour endHour)).
            title a \<noteq> [])
       \<and> (\<forall>a \<in> set (fst (handleDrop prev minsOpt internalId external newId d startHour endHour)).
            title a \<noteq> [])
       \<and> (\<forall>a \<in> set (fst (saveEdit prev editDraft)). title a \<noteq> [])
       \<and> (\<forall>a \<in> set (removeActivity prev i). title a \<noteq> [])
       \<and> (p_title payload = None \<or> p_title payload = Some []
            \<longrightarrow> insertActivity prev payload newId d mins startHour endHour
                  = (prev, InvalidActivity))
       \<and> (JS_trim (title draft) = [] \<longrightarrow> title (cleaned draft) = ''Untitled'')
       \<and> (snd (insertActivity prev payload newId d mins startHour endHour) = Committed
            \<longrightarrow> (\<exists>a. fst (insertActivity prev payload newId d mins startHour endHour)
                        = prev @ [a] \<and>
                      p_title payload = Some (title a) \<and> title a \<noteq> []))
       \<and> (snd (saveEdit prev (Some draft)) = Committed
            \<longrightarrow> fst (saveEdit prev (Some draft))
                  = map (\<lambda>a. if ident a = ident draft then cleaned draft else a) prev)
       \<and> title (cleaned draft)
            = (if JS_trim (title draft) = [] then ''Untitled'' else JS_trim (title draft))
       \<and> title ` set (fst (moveActivity prev internalId d mins startHour endHour))
            \<subseteq> title ` set prev
       \<and> set (removeActivity prev i) \<subseteq> set prev"
proof -
  have ins: "\<forall>a \<in> set (fst (insertActivity prev p newId d k startHour endHour)). title a \<noteq> []"
    for p k
    using inv
    by (auto simp: insertActivity_def newActivity_def Let_def split: option.splits)
  have mov: "\<forall>a \<in> set (fst (moveActivity prev internalId d k startHour endHour)). title a \<noteq> []"
    for k
  proof (cases "find (\<lambda>a. ident a = internalId) prev")
    case None
    then show ?thesis using inv by (simp add: moveActivity_def)
  next
    case (Some found)
    then have "title found \<noteq> []" using inv find_mem by fastforce
    then show ?thesis using inv Some by (auto simp: moveActivity_def Let_def)
  qed
  have drop: "\<forall>a \<in> set (fst (handleDrop prev minsOpt internalId external newId d startHour endHour)).
            title a \<noteq> []"
    using ins mov inv by (simp add: handleDrop_def split: option.splits ExternalData.splits)
  have edit: "\<forall>a \<in> set (fst (saveEdit prev editDraft)). title a \<noteq> []"
    using inv cleaned_title by (auto simp: saveEdit_def Let_def split: option.splits)
  have rem: "\<forall>a \<in> set (removeActivity prev i). title a \<noteq> []"
    using inv by (simp add: removeActivity_def)
  have rej: "p_title payload = None \<or> p_title payload = Some []
            \<longrightarrow> insertActivity prev payload newId d mins startHour endHour
                  = (prev, InvalidActivity)"
    by (auto simp: insertActivity_def split: option.splits)
  have unt: "JS_trim (title draft) = [] \<longrightarrow> title (cleaned draft) = ''Untitled''"
    by (simp add: cleaned_def)
  have insc: "snd (insertActivity prev payload newId d mins startHour endHour) = Committed
            \<longrightarrow> (\<exists>a. fst (insertActivity prev payload newId d mins startHour endHour)
                        = prev @ [a] \<and>
                      p_title payload = Some (title a) \<and> title a \<noteq> [])"
    by (auto simp: insertActivity_def newActivity_def Let_def split: option.splits)
  have idc: "ident (cleaned draft) = ident draft" by (simp add: cleaned_def)
  have edc: "snd (saveEdit prev (Some draft)) = Committed
            \<longrightarrow> fst (saveEdit prev (Some draft))
                  = map (\<lambda>a. if ident a = ident draft then cleaned draft else a) prev"
    by (simp add: saveEdit_def Let_def idc)
  have ct: "title (cleaned draft)
            = (if JS_trim (title draft) = [] then ''Untitled'' else JS_trim (title draft))"
    by (simp add: cleaned_def)
  have movt: "title ` set (fst (moveActivity prev internalId d mins startHour endHour))
            \<subseteq> title ` set prev"
  proof (cases "find (\<lambda>a. ident a = internalId) prev")
    case None
    then show ?thesis by (simp add: moveActivity_def)
  next
    case (Some found)
    then have "found \<in> set prev" by (rule find_mem)
    then show ?thesis using Some by (auto simp: moveActivity_def Let_def image_iff)
  qed
  have remsub: "set (removeActivity prev i) \<subseteq> set prev"
    by (auto simp: removeActivity_def)
  show ?thesis using ins mov drop edit rem rej unt insc edc ct movt remsub by blast
qed

theorem titles_stay_nonempty_witness:
  "insertActivity [walk] untitledPayload ''n1'' Saturday 720 5 23 = ([walk], InvalidActivity)
   \<and> fst (saveEdit [walk] (Some blankWalk)) = [cleaned blankWalk]
   \<and> title (cleaned blankWalk) = ''Untitled''
   \<and> title (cleaned nbspWalk) = ''Untitled''
   \<and> title (hd (fst (saveEdit [walk] (Some blankWalk)))) = ''Untitled''
   \<and> title (last (fst (insertActivity [walk] lunchPayload ''n1'' Saturday 720 5 23))) = ''Lunch''"
proof -
  have inv: "\<forall>a \<in> set [walk]. title a \<noteq> []" by (simp add: walk_def)
  note T = titles_stay_nonempty [OF inv, where payload = untitledPayload and newId = "''n1''"
      and d = Saturday and mins = 720 and startHour = 5 and endHour = 23
      and draft = blankWalk]
  note U = titles_stay_nonempty [OF inv, where payload = lunchPayload and newId = "''n1''"
      and d = Saturday and mins = 720 and startHour = 5 and endHour = 23]
  note V = titles_stay_nonempty [OF inv, where draft = nbspWalk]
  have p: "p_title untitledPayload = Some []" by (simp add: untitledPayload_def)
  have tn: "JS_trim (title nbspWalk) = []" by code_simp
  have t: "JS_trim (title blankWalk) = []" by code_simp
  have ec: "snd (saveEdit [walk] (Some blankWalk)) = Committed" by code_simp
  have ic: "snd (insertActivity [walk] lunchPayload ''n1'' Saturday 720 5 23) = Committed"
    by code_simp
  have idw: "ident walk = ident blankWalk" by (simp add: blankWalk_def)
  have lt: "p_title lunchPayload = Some ''Lunch''" by (simp add: lunchPayload_def)
  have 1: "insertActivity [walk] untitledPayload ''n1'' Saturday 720 5 23 = ([walk], InvalidActivity)"
    using T [THEN conjunct2, THEN conjunct2, THEN conjunct2, THEN conjunct2, THEN conjunct2, THEN conjunct1] p by simp
  have "fst (saveEdit [walk] (Some blankWalk))
          = map (\<lambda>a. if ident a = ident blankWalk then cleaned blankWalk else a) [walk]"
    using T [THEN conjunct2, THEN conjunct2, THEN conjunct2, THEN conjunct2, THEN conjunct2, THEN conjunct2, THEN conjunct2, THEN conjunct2, THEN conjunct1] ec by (rule mp)
  then have 2: "fst (saveEdit [walk] (Some blankWalk)) = [cleaned blankWalk]"
    using idw by simp
  have 3: "title (cleaned blankWalk) = ''Untitled''"
    using T [THEN conjunct2, THEN conjunct2, THEN conjunct2, THEN conjunct2, THEN conjunct2, THEN conjunct2, THEN conjunct1] t by (rule mp)
  have 4: "title (hd (fst (saveEdit [walk] (Some blankWalk)))) = ''Untitled''"
    using 2 3 by simp
  from U [THEN conjunct2, THEN conjunct2, THEN conjunct2, THEN conjunct2, THEN conjunct2, THEN conjunct2, THEN conjunct2, THEN conjunct1, THEN mp, OF ic] obtain a where
    a: "fst (insertActivity [walk] lunchPayload ''n1'' Saturday 720 5 23) = [walk] @ [a]"
       "p_title lunchPayload = Some (title a)"
    by (elim exE conjE)
  have 5: "title (last (fst (insertActivity [walk] lunchPayload ''n1'' Saturday 720 5 23)))
             = ''Lunch''"
    using a lt by simp
  have 6: "title (cleaned nbspWalk) = ''Untitled''"
    using V [THEN conjunct2, THEN conjunct2, THEN conjunct2, THEN conjunct2, THEN conjunct2,
             THEN conjunct2, THEN conjunct1] tn by (rule mp)
  show ?thesis using 1 2 3 4 5 6 by blast
qed

section \<open>Committed edits\<close>

text \<open>
  C8. The claim asks that every committed edit has a duration that is a multiple of 15
  and at least 15. The code does not ensure it: the duration field of the edit dialog
  reads the input .5 as NaN, and an edit with a NaN duration is committed with the
  duration NaN, since \<open>Math.max\<close> of 15 and NaN is NaN and no comparison of the
  conflict check is true of NaN.
\<close>

theorem saveEdit_commits_NaN_duration:
  "durationField ''.5'' = None \<and> durationMins nanDraft = None \<and>
   durationMins (cleaned nanDraft) = None \<and>
   saveEdit [lunch, brunch] (Some nanDraft) = ([lunch, cleaned nanDraft], Committed) \<and>
   durationMins (last (fst (saveEdit [lunch, brunch] (Some nanDraft)))) = None"
  by code_simp

section \<open>The next free start time\<close>




section \<open>The virtualization window\<close>

text \<open>
  C9, as the claim states it, fails: with 51 items of height 10, a container of height
  100, scroll offset 10 and overscan 0, item 0 spans the pixels from 0 to 10 and meets
  the viewport from 10 to 110 in the point 10, but the window starts at index 1.
\<close>

theorem useVirtualization_counterexample:
  "0 \<notin> set (map v_index (useVirtualization 51 10 100 10 0 50)) \<and>
   (0::rat) * 10 \<le> 10 \<and> (10::rat) \<le> (0 + 1) * 10 \<and> (10::rat) \<le> 10 \<and> (10::rat) \<le> 10 + 100"
  by code_simp

text \<open>
  C9, amended. For a positive item height: with at most \<open>threshold\<close> items the result
  is every index from 0 to n - 1; with more items it is the range from the start index
  to the end index. Every returned item has an index from 0 to n - 1 and carries its
  index times the height as start, the next multiple as end and the height as size.
  When the list is virtualized and the overscan is not negative, the range contains
  every index whose span overlaps the viewport in more than a boundary point; when the
  overscan is at least 1 it contains every index whose closed span meets the closed
  viewport.
\<close>

theorem useVirtualization_window:
  assumes h: "0 < itemHeight"
  shows "(int n \<le> threshold \<longrightarrow>
            useVirtualization n itemHeight containerHeight scrollOffset overscan threshold
              = map (virtualItem itemHeight) [0..int n - 1])
       \<and> (threshold < int n \<longrightarrow>
            useVirtualization n itemHeight containerHeight scrollOffset overscan threshold
              = map (virtualItem itemHeight)
                  [startIndex itemHeight scrollOffset overscan ..
                   endIndex n itemHeight containerHeight scrollOffset overscan])
       \<and> (\<forall>v \<in> set (useVirtualization n itemHeight containerHeight scrollOffset overscan
                         threshold).
            0 \<le> v_index v \<and> v_index v < int n \<and>
            v_start v = of_int (v_index v) * itemHeight \<and>
            v_end v = (of_int (v_index v) + 1) * itemHeight \<and> v_size v = itemHeight)
       \<and> (threshold < int n \<and> 0 \<le> overscan \<longrightarrow>
            (\<forall>i. 0 \<le> i \<and> i < int n \<and>
                 of_int i * itemHeight < scrollOffset + containerHeight \<and>
                 scrollOffset < (of_int i + 1) * itemHeight
              \<longrightarrow> i \<in> v_index ` set (useVirtualization n itemHeight containerHeight
                                        scrollOffset overscan threshold)))
       \<and> (threshold < int n \<and> 1 \<le> overscan \<longrightarrow>
            (\<forall>i. 0 \<le> i \<and> i < int n \<and>
                 (\<exists>x. of_int i * itemHeight \<le> x \<and> x \<le> (of_int i + 1) * itemHeight \<and>
                      scrollOffset \<le> x \<and> x \<le> scrollOffset + containerHeight)
              \<longrightarrow> i \<in> v_index ` set (useVirtualization n itemHeight containerHeight
                                        scrollOffset overscan threshold)))"
proof -
  let ?U = "useVirtualization n itemHeight containerHeight scrollOffset overscan threshold"
  let ?a = "startIndex itemHeight scrollOffset overscan"
  let ?b = "endIndex n itemHeight containerHeight scrollOffset overscan"
  have small: "int n \<le> threshold \<longrightarrow> ?U = map (virtualItem itemHeight) [0..int n - 1]"
    by (simp add: useVirtualization_def)
  have large: "threshold < int n \<longrightarrow> ?U = map (virtualItem itemHeight) [?a..?b]"
    using h by (simp add: useVirtualization_def)
  have a0: "0 \<le> ?a" by (simp add: startIndex_def)
  have bn: "?b < int n" by (simp add: endIndex_def)
  have tags: "\<forall>v \<in> set ?U. 0 \<le> v_index v \<and> v_index v < int n \<and>
            v_start v = of_int (v_index v) * itemHeight \<and>
            v_end v = (of_int (v_index v) + 1) * itemHeight \<and> v_size v = itemHeight"
  proof (cases "int n \<le> threshold")
    case True
    with small show ?thesis by (auto simp: virtualItem_def)
  next
    case False
    with large a0 bn show ?thesis by (auto simp: virtualItem_def)
  qed
  have open_cover: "threshold < int n \<and> 0 \<le> overscan \<longrightarrow>
            (\<forall>i. 0 \<le> i \<and> i < int n \<and>
                 of_int i * itemHeight < scrollOffset + containerHeight \<and>
                 scrollOffset < (of_int i + 1) * itemHeight
              \<longrightarrow> i \<in> v_index ` set ?U)"
  proof (intro impI allI)
    fix i
    assume t: "threshold < int n \<and> 0 \<le> overscan"
      and i: "0 \<le> i \<and> i < int n \<and>
                 of_int i * itemHeight < scrollOffset + containerHeight \<and>
                 scrollOffset < (of_int i + 1) * itemHeight"
    have "?a \<le> i" using h i t by (intro start_le_open) simp_all
    moreover have "i \<le> ?b" using h i t by (intro end_ge) simp_all
    ultimately have "i \<in> {?a..?b}" by simp
    then show "i \<in> v_index ` set ?U"
      using large t by (simp only: virtual_indices)
  qed
  have closed_cover: "threshold < int n \<and> 1 \<le> overscan \<longrightarrow>
            (\<forall>i. 0 \<le> i \<and> i < int n \<and>
                 (\<exists>x. of_int i * itemHeight \<le> x \<and> x \<le> (of_int i + 1) * itemHeight \<and>
                      scrollOffset \<le> x \<and> x \<le> scrollOffset + containerHeight)
              \<longrightarrow> i \<in> v_index ` set ?U)"
  proof (intro impI allI)
    fix i
    assume t: "threshold < int n \<and> 1 \<le> overscan"
      and i: "0 \<le> i \<and> i < int n \<and>
                 (\<exists>x. of_int i * itemHeight \<le> x \<and> x \<le> (of_int i + 1) * itemHeight \<and>
                      scrollOffset \<le> x \<and> x \<le> scrollOffset + containerHeight)"
    then obtain x where x: "of_int i * itemHeight \<le> x" "x \<le> (of_int i + 1) * itemHeight"
      "scrollOffset \<le> x" "x \<le> scrollOffset + containerHeight" by blast
    have lo: "scrollOffset \<le> (of_int i + 1) * itemHeight" using x by linarith
    have hi: "of_int i * itemHeight \<le> scrollOffset + containerHeight" using x by linarith
    have "?a \<le> i" using h i t lo by (intro start_le_closed) simp_all
    moreover have "i \<le> ?b" using h i t hi by (intro end_ge) simp_all
    ultimately have "i \<in> {?a..?b}" by simp
    then show "i \<in> v_index ` set ?U"
      using large t by (simp only: virtual_indices)
  qed
  show ?thesis using small large tags open_cover closed_cover by blast
qed

theorem useVirtualization_window_witness:
  "useVirtualization 3 10 100 0 5 50 = map (virtualItem 10) [0..int 3 - 1] \<and>
   2 \<in> v_index ` set (useVirtualization 51 10 100 25 0 50) \<and>
   0 \<in> v_index ` set (useVirtualization 51 10 100 10 1 50)"
proof -
  have h: "(0::rat) < 10" by simp
  note A = useVirtualization_window [OF h, where n = 3 and containerHeight = 100
      and scrollOffset = 0 and overscan = 5 and threshold = 50]
  note B = useVirtualization_window [OF h, where n = 51 and containerHeight = 100
      and scrollOffset = 25 and overscan = 0 and threshold = 50]
  note C = useVirtualization_window [OF h, where n = 51 and containerHeight = 100
      and scrollOffset = 10 and overscan = 1 and threshold = 50]
  have 1: "useVirtualization 3 10 100 0 5 50 = map (virtualItem 10) [0..int 3 - 1]"
    using A [THEN conjunct1] by simp
  have b: "(0::int) \<le> 2 \<and> 2 < int 51 \<and> of_int 2 * (10::rat) < 25 + 100 \<and>
           (25::rat) < (of_int 2 + 1) * 10" by simp
  have 2: "2 \<in> v_index ` set (useVirtualization 51 10 100 25 0 50)"
    using B [THEN conjunct2, THEN conjunct2, THEN conjunct2, THEN conjunct1] b by simp
  have c: "(0::int) \<le> 0 \<and> 0 < int 51 \<and>
           (\<exists>x. of_int 0 * (10::rat) \<le> x \<and> x \<le> (of_int 0 + 1) * 10 \<and> 10 \<le> x \<and> x \<le> 10 + 100)"
    by (simp, rule exI [of _ 10]) simp
  have 3: "0 \<in> v_index ` set (useVirtualization 51 10 100 10 1 50)"
    using C [THEN conjunct2, THEN conjunct2, THEN conjunct2, THEN conjunct2] c by simp
  show ?thesis using 1 2 3 by blast
qed

section \<open>Plan versions\<close>

text \<open>
  C3. The claim asks that every successful \<open>updatePlan\<close> stores the previous version
  plus 1, whatever the patch holds, with the database as with the flat keys. With the
  flat keys the code does not: for a stored plan at version 1, a patch that only sets
  the activities leaves the version at 1, and a patch that carries version 0 stores
  version 0. The same two patches on the database store version 2.
\<close>

theorem updatePlan_flat_key_version:
  "map_option version (getPlan flatManager ''p1'') = Some 1 \<and>
   versionAfter (updatePlan flatManager ''p1'' activitiesPatch 2000) ''p1'' = Some 1 \<and>
   versionAfter (updatePlan flatManager ''p1'' staleVersionPatch 2000) ''p1'' = Some 0 \<and>
   versionAfter (updatePlan structuredManager ''p1'' activitiesPatch 2000) ''p1'' = Some 2 \<and>
   versionAfter (updatePlan structuredManager ''p1'' staleVersionPatch 2000) ''p1'' = Some 2"
  by (simp add: versionAfter_def updatePlan_def getPlan_def flatManager_def
      structuredManager_def updatePlanInLocalStorage_def updatePlanInIndexedDB_def
      deleteByPlan_def spread_def samplePlan_def activitiesPatch_def staleVersionPatch_def
      brunch_def lunch_def Let_def)

end
